theory Spec2Isabelle
  imports
    Complex_Main
    "HOL-Library.Log_Nat"
    "HOL-Library.Char_ord"
    "HOL-Library.List_Lexorder"
    "HOL-Library.Product_Lexorder"
    "HOL-Library.Multiset"
    "HOL-Library.Sublist"
begin

section \<open>JavaScript values\<close>

text \<open>
  Strings are sequences of code units; the model keeps the code units below 256, so a
  string is a \<^typ>\<open>string\<close>.  An optional property (\<^verbatim>\<open>undefined\<close> when the decoder left it
  out) is an \<^typ>\<open>'a option\<close>.  For a string the falsy values are \<^verbatim>\<open>undefined\<close> and the
  empty string.
\<close>

definition truthy :: "string option \<Rightarrow> bool" where
  "truthy s = (case s of None \<Rightarrow> False | Some t \<Rightarrow> t \<noteq> [])"

text \<open>\<^verbatim>\<open>a || b\<close> on optional strings.\<close>

definition js_or :: "string option \<Rightarrow> string option \<Rightarrow> string option" where
  "js_or a b = (if truthy a then a else b)"

text \<open>\<^verbatim>\<open>a ?? b\<close>.\<close>

definition nullish :: "'a option \<Rightarrow> 'a option \<Rightarrow> 'a option" where
  "nullish a b = (case a of None \<Rightarrow> b | Some _ \<Rightarrow> a)"

text \<open>
  A number is an IEEE-754 binary64 value: not-a-number, an infinity, or a finite value,
  kept as the rational it denotes (the two zeros are one value here: the code below never
  tells them apart, \<^verbatim>\<open>-0\<close> being falsy like \<^verbatim>\<open>0\<close>).
\<close>

datatype jsnum = NaN | PosInf | NegInf | Fin rat

text \<open>Rounding a rational to the nearest integer, ties to the even one.\<close>

definition round_half_even :: "rat \<Rightarrow> int" where
  "round_half_even q =
     (let f = \<lfloor>q\<rfloor>; d = q - of_int f
      in if d < 1 / 2 then f
         else if 1 / 2 < d then f + 1
         else if even f then f else f + 1)"

text \<open>The binary exponent \<open>\<lfloor>log\<^sub>2 x\<rfloor>\<close> of a positive rational.\<close>

definition ilog2 :: "rat \<Rightarrow> int" where
  "ilog2 x =
     (let k = bitlen (fst (quotient_of x)) - bitlen (snd (quotient_of x))
      in if power_int 2 k \<le> x then k else k - 1)"

text \<open>
  Round-to-nearest-even into binary64: a significand \<open>n\<close> of 53 bits at the binary exponent
  \<open>e\<close> of the value, which is not taken below \<open>-1022\<close> (the subnormal range); a result of
  \<open>2\<^sup>1\<^sup>0\<^sup>2\<^sup>4\<close> or more overflows to an infinity.
\<close>

definition round_double :: "rat \<Rightarrow> jsnum" where
  "round_double x =
     (if x = 0 then Fin 0
      else
        let a = \<bar>x\<bar>;
            e = max (ilog2 a) (- 1022);
            ulp = power_int 2 (e - 52);
            n = round_half_even (a / ulp)
        in if 1023 < e \<or> (e = 1023 \<and> 2 ^ 53 \<le> n) then (if 0 < x then PosInf else NegInf)
           else Fin (if 0 < x then of_int n * ulp else - (of_int n * ulp)))"

text \<open>The multiplication \<^verbatim>\<open>a * b\<close> of two numbers.\<close>

fun js_mul :: "jsnum \<Rightarrow> jsnum \<Rightarrow> jsnum" where
  "js_mul NaN _ = NaN"
| "js_mul _ NaN = NaN"
| "js_mul (Fin a) (Fin b) = round_double (a * b)"
| "js_mul (Fin a) PosInf = (if a = 0 then NaN else if 0 < a then PosInf else NegInf)"
| "js_mul (Fin a) NegInf = (if a = 0 then NaN else if 0 < a then NegInf else PosInf)"
| "js_mul PosInf (Fin b) = (if b = 0 then NaN else if 0 < b then PosInf else NegInf)"
| "js_mul NegInf (Fin b) = (if b = 0 then NaN else if 0 < b then NegInf else PosInf)"
| "js_mul PosInf PosInf = PosInf"
| "js_mul PosInf NegInf = NegInf"
| "js_mul NegInf PosInf = NegInf"
| "js_mul NegInf NegInf = PosInf"

text \<open>A decimal literal of the source denotes the double nearest to it.\<close>

definition double_lit :: "rat \<Rightarrow> jsnum" where
  "double_lit q = round_double q"

text \<open>\<^verbatim>\<open>x || 0\<close> on an optional number: \<^verbatim>\<open>undefined\<close>, \<^verbatim>\<open>NaN\<close> and zero are falsy.\<close>

definition num_or_zero :: "jsnum option \<Rightarrow> jsnum" where
  "num_or_zero x =
     (case x of
        None \<Rightarrow> Fin 0
      | Some NaN \<Rightarrow> Fin 0
      | Some (Fin r) \<Rightarrow> (if r = 0 then Fin 0 else Fin r)
      | Some n \<Rightarrow> n)"

text \<open>\<^verbatim>\<open>String(n)\<close> of a non-negative integer: its decimal digits.\<close>

fun string_of_nat :: "nat \<Rightarrow> string" where
  "string_of_nat n =
     (if n < 10 then [char_of (48 + n)]
      else string_of_nat (n div 10) @ [char_of (48 + n mod 10)])"

text \<open>A thrown exception, with its message.\<close>

datatype exn = Error string

section \<open>The decoded realtime feed\<close>

text \<open>
  The objects \<^verbatim>\<open>FeedMessage.toObject\<close> returns for the schema of \<^verbatim>\<open>getRTRoot\<close>.  The
  code reads every property of a trip descriptor and of a stop-time update under its
  camel-case and under its snake-case name, so both are fields here.
\<close>

record TripDescriptor =
  td_tripId :: "string option"
  td_trip_id :: "string option"
  td_routeId :: "string option"
  td_route_id :: "string option"
  td_directionId :: "nat option"
  td_direction_id :: "nat option"

record VehicleDescriptor =
  vd_id :: "string option"
  vd_label :: "string option"

record Position =
  latitude :: jsnum
  longitude :: jsnum
  pos_bearing :: "jsnum option"
  pos_speed :: "jsnum option"

record VehiclePosition =
  vp_trip :: "TripDescriptor option"
  vp_vehicle :: "VehicleDescriptor option"
  vp_position :: "Position option"

record StopTimeEvent =
  ste_delay :: "int option"

record StopTimeUpdate =
  stu_stopId :: "string option"
  stu_stop_id :: "string option"
  arrival :: "StopTimeEvent option"
  departure :: "StopTimeEvent option"

record TripUpdate =
  tu_trip :: "TripDescriptor option"
  stopTimeUpdate :: "StopTimeUpdate list option"

record FeedEntity =
  fe_id :: string
  tripUpdate :: "TripUpdate option"
  fe_vehicle :: "VehiclePosition option"

record FeedMessage =
  entity :: "FeedEntity list option"

section \<open>The service state and its records\<close>

record TripMapEntry =
  r :: string
  h :: string

record TripUpdateInfo =
  info_delay :: "int option"
  info_directionId :: "nat option"
  info_routeId :: "string option"
  info_lastStopId :: "string option"

record SLVehicle =
  veh_id :: string
  line :: string
  tripId :: string
  operator :: string
  vehicleNumber :: string
  lat :: jsnum
  lng :: jsnum
  bearing :: jsnum
  speed :: jsnum
  destination :: string
  veh_type :: string
  delay :: "int option"

record SLLineRoute =
  route_id :: string
  route_line :: string
  trip_ids :: "string list"

record SLService =
  isInitialized :: bool
  tripToRouteMap :: "(string \<rightharpoonup> TripMapEntry) option"
  routeDirections :: "(string \<rightharpoonup> (string \<rightharpoonup> string)) option"
  stopsMap :: "string \<rightharpoonup> string"

text \<open>
  The placeholder headsign of the source, the Swedish word for unknown: the letters O, k,
  U+00E4, n, d.
\<close>

definition Okand :: string where
  "Okand = [CHR ''O'', CHR ''k'', CHR 0xE4, CHR ''n'', CHR ''d'']"

section \<open>The trip-update index of \<^verbatim>\<open>getLiveVehicles\<close>\<close>

text \<open>
  \<^verbatim>\<open>SLService.getLiveVehicles\<close>, lines 383 to 421: the loop over the entities of the
  trip-updates feed that fills \<^verbatim>\<open>tripInfoMap\<close>.  A later entity of a trip id replaces an
  earlier one.
\<close>

text \<open>
  The delay of the first stop-time update: the arrival's delay when the arrival carries
  one, otherwise the departure's.  \<^verbatim>\<open>parseInt\<close> of an \<^verbatim>\<open>int32\<close> is that integer.
\<close>

definition firstUpdate_delay :: "StopTimeUpdate \<Rightarrow> int option" where
  "firstUpdate_delay firstUpdate =
     (case arrival firstUpdate of
        Some a \<Rightarrow>
          (case ste_delay a of
             Some d \<Rightarrow> Some d
           | None \<Rightarrow>
               (case departure firstUpdate of
                  Some dep \<Rightarrow> ste_delay dep
                | None \<Rightarrow> None))
      | None \<Rightarrow>
          (case departure firstUpdate of
             Some dep \<Rightarrow> ste_delay dep
           | None \<Rightarrow> None))"

text \<open>The entry stored for a trip update: \<^verbatim>\<open>{ delay, directionId, routeId, lastStopId }\<close>.\<close>

definition tripUpdateInfo :: "TripDescriptor \<Rightarrow> StopTimeUpdate list option \<Rightarrow> TripUpdateInfo" where
  "tripUpdateInfo trip stus =
     (let routeId = js_or (td_routeId trip) (td_route_id trip);
          directionId = nullish (td_directionId trip) (td_direction_id trip)
      in case stus of
           Some (u # us) \<Rightarrow>
             \<lparr>info_delay = firstUpdate_delay u,
              info_directionId = directionId,
              info_routeId = routeId,
              info_lastStopId = js_or (stu_stopId (last (u # us))) (stu_stop_id (last (u # us)))\<rparr>
         | _ \<Rightarrow>
             \<lparr>info_delay = None,
              info_directionId = directionId,
              info_routeId = routeId,
              info_lastStopId = None\<rparr>)"

text \<open>One turn of the loop over the update entities.\<close>

definition indexUpdate :: "FeedEntity \<Rightarrow> (string \<rightharpoonup> TripUpdateInfo) \<Rightarrow> (string \<rightharpoonup> TripUpdateInfo)" where
  "indexUpdate e tripInfoMap =
     (case tripUpdate e of
        None \<Rightarrow> tripInfoMap
      | Some tu \<Rightarrow>
          (case tu_trip tu of
             None \<Rightarrow> tripInfoMap
           | Some trip \<Rightarrow>
               (case js_or (td_tripId trip) (td_trip_id trip) of
                  None \<Rightarrow> tripInfoMap
                | Some tid \<Rightarrow>
                    if tid = [] then tripInfoMap
                    else tripInfoMap(tid \<mapsto> tripUpdateInfo trip (stopTimeUpdate tu)))))"

definition buildTripInfoMap :: "FeedEntity list \<Rightarrow> (string \<rightharpoonup> TripUpdateInfo)" where
  "buildTripInfoMap updateEntities = fold indexUpdate updateEntities Map.empty"

section \<open>The position loop of \<^verbatim>\<open>getLiveVehicles\<close>\<close>

text \<open>
  Lines 423 to 479: the loop over the entities of the positions feed.  Its steps are
  definitions of their own here, in the order of the source, and \<open>resolveEntity\<close> puts
  them together.
\<close>

text \<open>The join with the trip-update entry: direction and route taken over when missing.\<close>

definition info_direction :: "TripUpdateInfo option \<Rightarrow> nat option \<Rightarrow> nat option" where
  "info_direction info directionId =
     (case info of
        None \<Rightarrow> directionId
      | Some i \<Rightarrow> (if directionId = None then info_directionId i else directionId))"

definition info_route :: "TripUpdateInfo option \<Rightarrow> string option \<Rightarrow> string option" where
  "info_route info routeId =
     (case info of
        None \<Rightarrow> routeId
      | Some i \<Rightarrow> (if \<not> truthy routeId then info_routeId i else routeId))"

text \<open>\<^verbatim>\<open>this.tripToRouteMap && this.tripToRouteMap[tripId]\<close>.\<close>

definition mapEntry_of :: "SLService \<Rightarrow> string \<Rightarrow> TripMapEntry option" where
  "mapEntry_of svc tid = (case tripToRouteMap svc of None \<Rightarrow> None | Some m \<Rightarrow> m tid)"

definition mapEntry_route :: "TripMapEntry option \<Rightarrow> string option \<Rightarrow> string option" where
  "mapEntry_route mapEntry routeId =
     (case mapEntry of
        None \<Rightarrow> routeId
      | Some me \<Rightarrow> (if \<not> truthy routeId then Some (r me) else routeId))"

definition mapEntry_headsign :: "TripMapEntry option \<Rightarrow> string" where
  "mapEntry_headsign mapEntry =
     (case mapEntry of
        None \<Rightarrow> Okand
      | Some me \<Rightarrow> (if h me \<noteq> [] then h me else Okand))"

text \<open>The fallback through \<^verbatim>\<open>routeDirections[routeId]?.[String(directionId)]\<close>.\<close>

definition directions_headsign ::
  "SLService \<Rightarrow> string option \<Rightarrow> nat option \<Rightarrow> string \<Rightarrow> string" where
  "directions_headsign svc routeId directionId headsign =
     (if (headsign = [] \<or> headsign = Okand) \<and> truthy routeId then
        (case (routeId, directionId, routeDirections svc) of
           (Some rid, Some d, Some dirs) \<Rightarrow>
             (case dirs rid of
                None \<Rightarrow> headsign
              | Some byDir \<Rightarrow>
                  (case byDir (string_of_nat d) of
                     None \<Rightarrow> headsign
                   | Some fallbackHeadsign \<Rightarrow>
                       if fallbackHeadsign \<noteq> [] then fallbackHeadsign else headsign))
         | _ \<Rightarrow> headsign)
      else headsign)"

text \<open>The fallback through the name of the last stop of the trip update.\<close>

definition lastStop_headsign :: "SLService \<Rightarrow> TripUpdateInfo option \<Rightarrow> string \<Rightarrow> string" where
  "lastStop_headsign svc info headsign =
     (if headsign = [] \<or> headsign = Okand then
        (case info of
           None \<Rightarrow> headsign
         | Some i \<Rightarrow>
             (case info_lastStopId i of
                None \<Rightarrow> headsign
              | Some sid \<Rightarrow>
                  if sid = [] then headsign
                  else
                    (case stopsMap svc sid of
                       None \<Rightarrow> headsign
                     | Some stopName \<Rightarrow> if stopName \<noteq> [] then stopName else headsign)))
      else headsign)"

text \<open>\<^verbatim>\<open>v.vehicle?.id || e.id\<close> and \<^verbatim>\<open>v.vehicle?.label || "N/A"\<close>.\<close>

definition vehicle_id_or :: "VehicleDescriptor option \<Rightarrow> string \<Rightarrow> string" where
  "vehicle_id_or vd eid =
     (case vd of
        None \<Rightarrow> eid
      | Some d \<Rightarrow> (case vd_id d of None \<Rightarrow> eid | Some s \<Rightarrow> if s \<noteq> [] then s else eid))"

definition vehicle_label_or :: "VehicleDescriptor option \<Rightarrow> string \<Rightarrow> string" where
  "vehicle_label_or vd dflt =
     (case vd of
        None \<Rightarrow> dflt
      | Some d \<Rightarrow> (case vd_label d of None \<Rightarrow> dflt | Some s \<Rightarrow> if s \<noteq> [] then s else dflt))"

text \<open>
  One turn of the loop over the position entities: \<open>None\<close> is a \<^verbatim>\<open>continue\<close>, \<open>Some v\<close>
  the vehicle pushed onto \<^verbatim>\<open>allVehicles\<close>.
\<close>

definition resolveEntity ::
  "SLService \<Rightarrow> (string \<rightharpoonup> TripUpdateInfo) \<Rightarrow> FeedEntity \<Rightarrow> SLVehicle option" where
  "resolveEntity svc tripInfoMap e =
     (case fe_vehicle e of
        None \<Rightarrow> None
      | Some v \<Rightarrow>
     (case vp_position v of
        None \<Rightarrow> None
      | Some pos \<Rightarrow>
     (case vp_trip v of
        None \<Rightarrow> None
      | Some trip \<Rightarrow>
     (case js_or (td_tripId trip) (td_trip_id trip) of
        None \<Rightarrow> None
      | Some tid \<Rightarrow>
          if tid = [] then None
          else
            let info = tripInfoMap tid;
                directionId =
                  info_direction info (nullish (td_directionId trip) (td_direction_id trip));
                mapEntry = mapEntry_of svc tid;
                routeId =
                  mapEntry_route mapEntry
                    (info_route info (js_or (td_routeId trip) (td_route_id trip)));
                headsign =
                  lastStop_headsign svc info
                    (directions_headsign svc routeId directionId (mapEntry_headsign mapEntry))
            in case routeId of
                 None \<Rightarrow> None
               | Some rid \<Rightarrow>
                   if rid = [] then None
                   else
                     Some
                       \<lparr>veh_id = vehicle_id_or (vp_vehicle v) (fe_id e),
                        line = rid,
                        tripId = tid,
                        operator = ''SL / Entrepren'' @ [CHR 0xF6] @ ''r'',
                        vehicleNumber = vehicle_label_or (vp_vehicle v) ''N/A'',
                        lat = latitude pos,
                        lng = longitude pos,
                        bearing = num_or_zero (pos_bearing pos),
                        speed = js_mul (num_or_zero (pos_speed pos)) (double_lit (36 / 10)),
                        destination = headsign,
                        veh_type = ''Buss'',
                        delay = (case info of None \<Rightarrow> None | Some i \<Rightarrow> info_delay i)\<rparr>))))"

text \<open>The whole loop: the vehicles pushed, in the order of the entities.\<close>

definition allVehicles_of ::
  "SLService \<Rightarrow> (string \<rightharpoonup> TripUpdateInfo) \<Rightarrow> FeedEntity list \<Rightarrow> SLVehicle list" where
  "allVehicles_of svc tripInfoMap posEntities =
     List.map_filter (resolveEntity svc tripInfoMap) posEntities"

text \<open>Lines 485 to 492: the filter on the route, with its fallback on the line.\<close>

definition filterByRoute :: "SLVehicle list \<Rightarrow> SLLineRoute \<Rightarrow> SLVehicle list" where
  "filterByRoute allVehicles route =
     (let filteredVehicles = filter (\<lambda>v. tripId v \<in> set (trip_ids route)) allVehicles
      in if length filteredVehicles = 0 \<and> 0 < length allVehicles
         then filter (\<lambda>v. line v = route_id route) allVehicles
         else filteredVehicles)"

section \<open>\<^verbatim>\<open>getLiveVehicles\<close>\<close>

text \<open>
  A \<^verbatim>\<open>fetch\<close> either rejects (\<open>None\<close>) or resolves to a response with its \<^verbatim>\<open>ok\<close> flag and
  its body.  The protobuf decoder is a library: it is a parameter, \<open>None\<close> when it throws.
\<close>

type_synonym bytes = "char list"

record 'b Response =
  resp_ok :: bool
  resp_body :: 'b

text \<open>\<^verbatim>\<open>FeedMessage.decode\<close>, \<^verbatim>\<open>toObject\<close> and \<^verbatim>\<open>object.entity || []\<close>.\<close>

definition decodeEntities :: "(bytes \<Rightarrow> FeedMessage option) \<Rightarrow> bytes \<Rightarrow> exn + FeedEntity list" where
  "decodeEntities decode buffer =
     (case decode buffer of
        None \<Rightarrow> Inl (Error ''decode'')
      | Some msg \<Rightarrow> Inr (case entity msg of None \<Rightarrow> [] | Some es \<Rightarrow> es))"

text \<open>The index built when the trip-updates response is there and \<^verbatim>\<open>ok\<close>.\<close>

definition fetchTripInfoMap ::
  "(bytes \<Rightarrow> FeedMessage option) \<Rightarrow> bytes Response option \<Rightarrow> exn + (string \<rightharpoonup> TripUpdateInfo)" where
  "fetchTripInfoMap decode updatesFetch =
     (case updatesFetch of
        None \<Rightarrow> Inr Map.empty
      | Some updatesRes \<Rightarrow>
          if resp_ok updatesRes then
            (case decodeEntities decode (resp_body updatesRes) of
               Inl e \<Rightarrow> Inl e
             | Inr updateEntities \<Rightarrow> Inr (buildTripInfoMap updateEntities))
          else Inr Map.empty)"

text \<open>The body of the \<^verbatim>\<open>try\<close> block: \<open>Inl\<close> is an exception thrown inside it.\<close>

definition getLiveVehicles_try ::
  "(bytes \<Rightarrow> FeedMessage option) \<Rightarrow> SLService \<Rightarrow> bytes Response option \<Rightarrow>
   bytes Response option \<Rightarrow> SLLineRoute option \<Rightarrow> exn + SLVehicle list" where
  "getLiveVehicles_try decode svc posFetch updatesFetch route =
     (case posFetch of
        None \<Rightarrow> Inl (Error ''fetch'')
      | Some posRes \<Rightarrow>
          if \<not> resp_ok posRes then Inl (Error ''API Error'')
          else if length (resp_body posRes) < 20 then Inr []
          else
            (case decodeEntities decode (resp_body posRes) of
               Inl e \<Rightarrow> Inl e
             | Inr posEntities \<Rightarrow>
                 (case fetchTripInfoMap decode updatesFetch of
                    Inl e \<Rightarrow> Inl e
                  | Inr tripInfoMap \<Rightarrow>
                      let allVehicles = allVehicles_of svc tripInfoMap posEntities
                      in case route of
                           None \<Rightarrow> Inr allVehicles
                         | Some rt \<Rightarrow> Inr (filterByRoute allVehicles rt))))"

text \<open>
  The method: the initialisation (a parameter; it may reject) runs outside the \<^verbatim>\<open>try\<close>,
  and the \<^verbatim>\<open>catch\<close> logs and returns the empty list.
\<close>

definition getLiveVehicles ::
  "(SLService \<Rightarrow> exn + SLService) \<Rightarrow> (bytes \<Rightarrow> FeedMessage option) \<Rightarrow> SLService \<Rightarrow>
   bytes Response option \<Rightarrow> bytes Response option \<Rightarrow> SLLineRoute option \<Rightarrow> exn + SLVehicle list" where
  "getLiveVehicles initialize decode svc posFetch updatesFetch route =
     (case (if isInitialized svc then Inr svc else initialize svc) of
        Inl e \<Rightarrow> Inl e
      | Inr svc' \<Rightarrow>
          (case getLiveVehicles_try decode svc' posFetch updatesFetch route of
             Inl e \<Rightarrow> Inr []
           | Inr vs \<Rightarrow> Inr vs))"

section \<open>The poll tick of the application\<close>

datatype LiveStatus = StatusLoading | StatusOk | StatusError

record AppState =
  vehicles :: "SLVehicle list"
  liveStatus :: LiveStatus

text \<open>
  \<^verbatim>\<open>fetchLive\<close> of the component \<^verbatim>\<open>App\<close>, given the outcome of \<^verbatim>\<open>getLiveVehicles\<close> (\<open>Inl\<close>
  when it rejects); the \<^verbatim>\<open>liveStatus\<close> it tests is the one its closure captured.
\<close>

definition fetchLive :: "LiveStatus \<Rightarrow> exn + SLVehicle list \<Rightarrow> AppState \<Rightarrow> AppState" where
  "fetchLive capturedStatus outcome st =
     (case outcome of
        Inr data \<Rightarrow>
          (if capturedStatus \<noteq> StatusOk
           then st\<lparr>vehicles := data, liveStatus := StatusOk\<rparr>
           else st\<lparr>vehicles := data\<rparr>)
      | Inl e \<Rightarrow> st\<lparr>liveStatus := StatusError\<rparr>)"

section \<open>The history store\<close>

text \<open>
  The collection \<^verbatim>\<open>vehicle_trails\<close> with its unique index on \<^verbatim>\<open>tripId\<close>: at most one
  document per trip id.  A database that cannot be reached is \<open>None\<close>.
\<close>

record TrailPoint =
  tp_lat :: "jsnum option"
  tp_lng :: "jsnum option"
  ts :: int

record TrailDoc =
  doc_line :: "string option"
  vehicleId :: "string option"
  expireAt :: int
  lastUpdate :: int
  trail :: "TrailPoint list"

type_synonym collection = "string \<rightharpoonup> TrailDoc"








text \<open>
  The history endpoint: the query parameter \<^verbatim>\<open>tripId\<close> (absent, one string, or several),
  then the response with its JSON body.  The comparator \<^verbatim>\<open>a.ts - b.ts\<close> orders by
  timestamp, and the sort of the language is stable, as \<^const>\<open>sort_key\<close> is.
\<close>

datatype QueryParam = Absent | Single string | Multiple "string list"

datatype HistoryBody = PathBody "TrailPoint list" | ErrorBody string

record HttpResponse =
  status :: nat
  json :: "HistoryBody option"

definition history_handler :: "QueryParam \<Rightarrow> collection option \<Rightarrow> HttpResponse" where
  "history_handler q db =
     (case q of
        Single tid \<Rightarrow>
          if tid = [] then \<lparr>status = 400, json = Some (ErrorBody ''Missing tripId'')\<rparr>
          else
            (case db of
               None \<Rightarrow> \<lparr>status = 200, json = Some (PathBody [])\<rparr>
             | Some coll \<Rightarrow>
                 (case coll tid of
                    None \<Rightarrow> \<lparr>status = 200, json = Some (PathBody [])\<rparr>
                  | Some trip \<Rightarrow> \<lparr>status = 200, json = Some (PathBody (sort_key ts (trail trip)))\<rparr>))
      | _ \<Rightarrow> \<lparr>status = 400, json = Some (ErrorBody ''Missing tripId'')\<rparr>)"

text \<open>
  The client side: the fetch rejects (\<open>None\<close>) or resolves; \<^verbatim>\<open>res.ok\<close> is a status from 200
  to 299; a body that is no JSON (\<open>json = None\<close>) makes \<^verbatim>\<open>res.json()\<close> reject.  \<open>Inl\<close> would be
  an exception leaving the method.
\<close>

definition getVehicleHistory :: "HttpResponse option \<Rightarrow> exn + TrailPoint list" where
  "getVehicleHistory fetched =
     (case fetched of
        None \<Rightarrow> Inr []
      | Some res \<Rightarrow>
          if \<not> (200 \<le> status res \<and> status res \<le> 299) then Inr []
          else
            (case json res of
               None \<Rightarrow> Inr []
             | Some (PathBody p) \<Rightarrow> Inr p
             | Some (ErrorBody _) \<Rightarrow> Inr []))"

section \<open>The line search\<close>

record LineManifestEntry =
  lme_id :: string
  lme_line :: string
  description :: string
  lme_from :: string
  lme_to :: string

record SearchResult =
  sr_type :: string
  sr_id :: string
  title :: string
  subtitle :: string

text \<open>\<^verbatim>\<open>toLowerCase\<close> on code units below 256: the letters A to Z and U+00C0 to U+00DE but U+00D7.\<close>

definition lower_char :: "char \<Rightarrow> char" where
  "lower_char c =
     (let n = (of_char c :: nat)
      in if (65 \<le> n \<and> n \<le> 90) \<or> (192 \<le> n \<and> n \<le> 222 \<and> n \<noteq> 215)
         then char_of (n + 32) else c)"

definition toLowerCase :: "string \<Rightarrow> string" where
  "toLowerCase s = map lower_char s"

definition startsWith :: "string \<Rightarrow> string \<Rightarrow> bool" where
  "startsWith s q = (take (length q) s = q)"

text \<open>
  The cursor over the index \<^verbatim>\<open>line\<close> of the store \<^verbatim>\<open>routes\<close>: the records by ascending line,
  and by ascending primary key \<^verbatim>\<open>id\<close> under one line.
\<close>

definition line_index :: "LineManifestEntry list \<Rightarrow> LineManifestEntry list" where
  "line_index routes = sort_key (\<lambda>route. (lme_line route, lme_id route)) routes"

definition line_result :: "LineManifestEntry \<Rightarrow> SearchResult" where
  "line_result route =
     \<lparr>sr_type = ''line'',
      sr_id = lme_id route,
      title = ''Linje '' @ lme_line route,
      subtitle = lme_from route @ '' - '' @ lme_to route\<rparr>"

text \<open>The \<^verbatim>\<open>onsuccess\<close> callback, once per record the cursor yields, \<open>results\<close> being the array.\<close>

fun cursor_lines :: "string \<Rightarrow> LineManifestEntry list \<Rightarrow> SearchResult list \<Rightarrow> SearchResult list" where
  "cursor_lines query [] results = results"
| "cursor_lines query (route # rest) results =
     (let results' =
            (if startsWith (toLowerCase (lme_line route)) query
             then results @ [line_result route] else results)
      in if length results' < 10 then cursor_lines query rest results' else results')"

definition searchLines :: "string \<Rightarrow> LineManifestEntry list \<Rightarrow> SearchResult list" where
  "searchLines query routes = cursor_lines query (line_index routes) []"

section \<open>The resolution rules as the specification words them\<close>

text \<open>
  The definitions of this section follow the sentences of the specification, not the
  code; the theorems below compare them with the loop of \<^verbatim>\<open>getLiveVehicles\<close>.
\<close>

text \<open>The first non-empty value of a list of candidates.\<close>

fun first_nonempty :: "string option list \<Rightarrow> string option" where
  "first_nonempty [] = None"
| "first_nonempty (c # cs) = (if truthy c then c else first_nonempty cs)"

text \<open>The first candidate that is neither empty nor the placeholder, else the placeholder.\<close>

fun first_headsign :: "string option list \<Rightarrow> string" where
  "first_headsign [] = Okand"
| "first_headsign (c # cs) =
     (case c of
        None \<Rightarrow> first_headsign cs
      | Some t \<Rightarrow> if t \<noteq> [] \<and> t \<noteq> Okand then t else first_headsign cs)"

text \<open>
  The trip descriptor of a position entity that has a vehicle record, a position and a
  trip descriptor, and the trip id it carries (\<open>None\<close> when it is absent or empty).
\<close>

definition spec_position_trip :: "FeedEntity \<Rightarrow> TripDescriptor option" where
  "spec_position_trip e =
     (case fe_vehicle e of
        None \<Rightarrow> None
      | Some v \<Rightarrow> (case vp_position v of None \<Rightarrow> None | Some _ \<Rightarrow> vp_trip v))"

definition spec_trip_tripId :: "TripDescriptor \<Rightarrow> string option" where
  "spec_trip_tripId trip = first_nonempty [td_tripId trip, td_trip_id trip]"

definition spec_trip_routeId :: "TripDescriptor \<Rightarrow> string option" where
  "spec_trip_routeId trip = first_nonempty [td_routeId trip, td_route_id trip]"

definition spec_trip_directionId :: "TripDescriptor \<Rightarrow> nat option" where
  "spec_trip_directionId trip =
     (case td_directionId trip of None \<Rightarrow> td_direction_id trip | Some d \<Rightarrow> Some d)"

definition spec_position_tripId :: "FeedEntity \<Rightarrow> string option" where
  "spec_position_tripId e =
     (case spec_position_trip e of None \<Rightarrow> None | Some trip \<Rightarrow> spec_trip_tripId trip)"

text \<open>The trip descriptor of a trip-update entity and the trip id it is indexed under.\<close>

definition spec_update_trip :: "FeedEntity \<Rightarrow> TripDescriptor option" where
  "spec_update_trip u = (case tripUpdate u of None \<Rightarrow> None | Some tu \<Rightarrow> tu_trip tu)"

definition spec_update_tripId :: "FeedEntity \<Rightarrow> string option" where
  "spec_update_tripId u =
     (case spec_update_trip u of None \<Rightarrow> None | Some trip \<Rightarrow> spec_trip_tripId trip)"

definition spec_update_stops :: "FeedEntity \<Rightarrow> StopTimeUpdate list" where
  "spec_update_stops u =
     (case tripUpdate u of
        None \<Rightarrow> []
      | Some tu \<Rightarrow> (case stopTimeUpdate tu of None \<Rightarrow> [] | Some stus \<Rightarrow> stus))"

text \<open>What the index stores for a trip-update entity.\<close>

definition spec_update_info :: "FeedEntity \<Rightarrow> TripUpdateInfo option" where
  "spec_update_info u =
     (case tripUpdate u of
        None \<Rightarrow> None
      | Some tu \<Rightarrow>
          (case tu_trip tu of
             None \<Rightarrow> None
           | Some trip \<Rightarrow> Some (tripUpdateInfo trip (stopTimeUpdate tu))))"

text \<open>
  The trip-update entity joined to a trip id: the one of that trip id, the last of them
  in the feed when there are several.
\<close>

definition spec_joined_update :: "FeedEntity list \<Rightarrow> string \<Rightarrow> FeedEntity option" where
  "spec_joined_update updateEntities tid =
     find (\<lambda>u. spec_update_tripId u = Some tid) (rev updateEntities)"

text \<open>The three sources of the route id, and the route id they give.\<close>

definition spec_joined_routeId :: "FeedEntity list \<Rightarrow> string \<Rightarrow> string option" where
  "spec_joined_routeId updateEntities tid =
     (case spec_joined_update updateEntities tid of
        None \<Rightarrow> None
      | Some u \<Rightarrow> (case spec_update_trip u of None \<Rightarrow> None | Some trip \<Rightarrow> spec_trip_routeId trip))"

definition spec_tripmap_routeId :: "SLService \<Rightarrow> string \<Rightarrow> string option" where
  "spec_tripmap_routeId svc tid =
     (case tripToRouteMap svc of
        None \<Rightarrow> None
      | Some m \<Rightarrow> (case m tid of None \<Rightarrow> None | Some me \<Rightarrow> Some (r me)))"

definition spec_routeId :: "SLService \<Rightarrow> FeedEntity list \<Rightarrow> TripDescriptor \<Rightarrow> string \<Rightarrow> string option" where
  "spec_routeId svc updateEntities trip tid =
     first_nonempty
       [spec_trip_routeId trip,
        spec_joined_routeId updateEntities tid,
        spec_tripmap_routeId svc tid]"

text \<open>The direction: the position's own value, else the joined trip update's.\<close>

definition spec_directionId :: "FeedEntity list \<Rightarrow> TripDescriptor \<Rightarrow> string \<Rightarrow> nat option" where
  "spec_directionId updateEntities trip tid =
     (case spec_trip_directionId trip of
        Some d \<Rightarrow> Some d
      | None \<Rightarrow>
          (case spec_joined_update updateEntities tid of
             None \<Rightarrow> None
           | Some u \<Rightarrow>
               (case spec_update_trip u of
                  None \<Rightarrow> None
                | Some utrip \<Rightarrow> spec_trip_directionId utrip)))"

text \<open>The three sources of the destination, and the destination they give.\<close>

definition spec_tripmap_headsign :: "SLService \<Rightarrow> string \<Rightarrow> string option" where
  "spec_tripmap_headsign svc tid =
     (case tripToRouteMap svc of
        None \<Rightarrow> None
      | Some m \<Rightarrow> (case m tid of None \<Rightarrow> None | Some me \<Rightarrow> Some (h me)))"

definition spec_direction_headsign :: "SLService \<Rightarrow> string \<Rightarrow> nat option \<Rightarrow> string option" where
  "spec_direction_headsign svc rid directionId =
     (case routeDirections svc of
        None \<Rightarrow> None
      | Some dirs \<Rightarrow>
          (case dirs rid of
             None \<Rightarrow> None
           | Some byDir \<Rightarrow>
               (case directionId of None \<Rightarrow> None | Some d \<Rightarrow> byDir (string_of_nat d))))"

definition spec_lastStop_name :: "SLService \<Rightarrow> FeedEntity list \<Rightarrow> string \<Rightarrow> string option" where
  "spec_lastStop_name svc updateEntities tid =
     (case spec_joined_update updateEntities tid of
        None \<Rightarrow> None
      | Some u \<Rightarrow>
          if spec_update_stops u = [] then None
          else
            (case first_nonempty
                    [stu_stopId (last (spec_update_stops u)),
                     stu_stop_id (last (spec_update_stops u))] of
               None \<Rightarrow> None
             | Some sid \<Rightarrow> stopsMap svc sid))"

definition spec_destination ::
  "SLService \<Rightarrow> FeedEntity list \<Rightarrow> string \<Rightarrow> string \<Rightarrow> nat option \<Rightarrow> string" where
  "spec_destination svc updateEntities tid rid directionId =
     first_headsign
       [spec_tripmap_headsign svc tid,
        spec_direction_headsign svc rid directionId,
        spec_lastStop_name svc updateEntities tid]"

text \<open>The delay of a stop-time update: the arrival's, else the departure's.\<close>

definition spec_event_delay :: "StopTimeEvent option \<Rightarrow> int option" where
  "spec_event_delay ev = (case ev of None \<Rightarrow> None | Some x \<Rightarrow> ste_delay x)"

definition spec_stop_delay :: "StopTimeUpdate \<Rightarrow> int option" where
  "spec_stop_delay u =
     (case spec_event_delay (arrival u) of
        Some d \<Rightarrow> Some d
      | None \<Rightarrow> spec_event_delay (departure u))"

text \<open>A prefix match that ignores case.\<close>

definition spec_prefix_nocase :: "string \<Rightarrow> string \<Rightarrow> bool" where
  "spec_prefix_nocase q s = prefix (toLowerCase q) (toLowerCase s)"






text \<open>The test of the cursor callback on a record.\<close>

definition line_matches :: "string \<Rightarrow> LineManifestEntry \<Rightarrow> bool" where
  "line_matches query route = startsWith (toLowerCase (lme_line route)) query"

section \<open>Concrete inputs\<close>

text \<open>
  The example of the specification: a position entity without route id, at 8 m/s, and
  the trip-map entry of its trip; with it a trip update of that trip, a route, and the
  tables of the service.
\<close>

definition ex_trip :: TripDescriptor where
  "ex_trip =
     \<lparr>td_tripId = Some ''14010000123456789'', td_trip_id = None,
      td_routeId = Some [], td_route_id = None,
      td_directionId = None, td_direction_id = None\<rparr>"

definition ex_position :: Position where
  "ex_position =
     \<lparr>latitude = Fin (3888251 / 65536), longitude = Fin (9468641 / 524288),
      pos_bearing = Some (Fin 90), pos_speed = Some (Fin 8)\<rparr>"

definition ex_entity :: FeedEntity where
  "ex_entity =
     \<lparr>fe_id = ''e1'', tripUpdate = None,
      fe_vehicle =
        Some \<lparr>vp_trip = Some ex_trip,
              vp_vehicle = Some \<lparr>vd_id = None, vd_label = Some ''4711''\<rparr>,
              vp_position = Some ex_position\<rparr>\<rparr>"

definition ex_stops :: "StopTimeUpdate list" where
  "ex_stops =
     [\<lparr>stu_stopId = Some ''S1'', stu_stop_id = None,
       arrival = Some \<lparr>ste_delay = Some 60\<rparr>, departure = Some \<lparr>ste_delay = Some 30\<rparr>\<rparr>,
      \<lparr>stu_stopId = Some ''S2'', stu_stop_id = None, arrival = None, departure = None\<rparr>]"

definition ex_update :: FeedEntity where
  "ex_update =
     \<lparr>fe_id = ''u1'',
      tripUpdate =
        Some \<lparr>tu_trip =
                Some \<lparr>td_tripId = Some ''14010000123456789'', td_trip_id = None,
                      td_routeId = None, td_route_id = None,
                      td_directionId = Some 1, td_direction_id = None\<rparr>,
              stopTimeUpdate = Some ex_stops\<rparr>,
      fe_vehicle = None\<rparr>"

definition ex_service :: SLService where
  "ex_service =
     \<lparr>isInitialized = True,
      tripToRouteMap =
        Some [''14010000123456789'' \<mapsto> \<lparr>r = ''9011001001200000'', h = ''Sollentuna''\<rparr>],
      routeDirections = Some [''9011001001200000'' \<mapsto> [''1'' \<mapsto> ''Kista'']],
      stopsMap = [''S2'' \<mapsto> ''Solna'']\<rparr>"

definition ex_vehicle :: SLVehicle where
  "ex_vehicle =
     \<lparr>veh_id = ''e1'',
      line = ''9011001001200000'',
      tripId = ''14010000123456789'',
      operator = ''SL / Entrepren'' @ [CHR 0xF6] @ ''r'',
      vehicleNumber = ''4711'',
      lat = Fin (3888251 / 65536),
      lng = Fin (9468641 / 524288),
      bearing = Fin 90,
      speed = Fin (8106479329266893 / 281474976710656),
      destination = ''Sollentuna'',
      veh_type = ''Buss'',
      delay = Some 60\<rparr>"

definition ex_route :: SLLineRoute where
  "ex_route = \<lparr>route_id = ''9011001001200000'', route_line = ''12'', trip_ids = [''stale'']\<rparr>"

text \<open>A decoder that throws on every input, and an initialisation that succeeds.\<close>

definition ex_decode :: "bytes \<Rightarrow> FeedMessage option" where
  "ex_decode buffer = None"

definition ex_initialize :: "SLService \<Rightarrow> exn + SLService" where
  "ex_initialize svc = Inr (svc\<lparr>isInitialized := True\<rparr>)"

text \<open>The three manifest entries of the search example, in the order they were put.\<close>

definition ex_manifest :: "LineManifestEntry list" where
  "ex_manifest =
     [\<lparr>lme_id = ''r40'', lme_line = ''40'', description = [], lme_from = ''A'', lme_to = ''B''\<rparr>,
      \<lparr>lme_id = ''r14'', lme_line = ''14'', description = [], lme_from = ''C'', lme_to = ''D''\<rparr>,
      \<lparr>lme_id = ''r4'', lme_line = ''4'', description = [], lme_from = ''E'', lme_to = ''F''\<rparr>]"


definition ex_collection :: collection where
  "ex_collection =
     [''T'' \<mapsto>
        \<lparr>doc_line = Some ''L'', vehicleId = Some ''V'', expireAt = 900, lastUpdate = 700,
         trail =
           [\<lparr>tp_lat = Some (Fin 1), tp_lng = Some (Fin 2), ts = 700\<rparr>,
            \<lparr>tp_lat = Some (Fin 3), tp_lng = Some (Fin 4), ts = 300\<rparr>]\<rparr>]"

text \<open>
  A position entity without trip id, the two feeds as byte strings of twenty bytes, and
  a decoder that knows them; a route whose trip ids hold the trip of the example.
\<close>

definition ex_anonymous :: FeedEntity where
  "ex_anonymous =
     \<lparr>fe_id = ''e0'', tripUpdate = None,
      fe_vehicle =
        Some \<lparr>vp_trip = Some (ex_trip\<lparr>td_tripId := None\<rparr>),
              vp_vehicle = None,
              vp_position = Some ex_position\<rparr>\<rparr>"

definition ex_pos_bytes :: bytes where
  "ex_pos_bytes = replicate 20 (CHR ''p'')"

definition ex_upd_bytes :: bytes where
  "ex_upd_bytes = replicate 20 (CHR ''u'')"

definition ex_feed_decode :: "bytes \<Rightarrow> FeedMessage option" where
  "ex_feed_decode buffer =
     (if buffer = ex_pos_bytes then Some \<lparr>entity = Some [ex_anonymous, ex_entity]\<rparr>
      else if buffer = ex_upd_bytes then Some \<lparr>entity = Some [ex_update]\<rparr>
      else None)"

definition ex_route_fresh :: SLLineRoute where
  "ex_route_fresh = \<lparr>route_id = ''other'', route_line = ''7'', trip_ids = [''14010000123456789'']\<rparr>"

section \<open>Lemmas on the model\<close>

lemma truthy_Some [simp]: "truthy (Some s) \<longleftrightarrow> s \<noteq> []"
  by (simp add: truthy_def)

lemma truthy_None [simp]: "\<not> truthy None"
  by (simp add: truthy_def)

lemma truthyE: "truthy c \<Longrightarrow> \<exists>s. c = Some s \<and> s \<noteq> []"
  by (cases c) simp_all

lemma first_nonempty_truthy: "first_nonempty cs = Some s \<Longrightarrow> s \<noteq> []"
  by (induction cs) (auto split: if_splits)

lemma first_nonempty_pair: "first_nonempty [a, b] = (if truthy (js_or a b) then js_or a b else None)"
  by (simp add: js_or_def)

lemma js_or_Some_iff:
  "(js_or a b = Some tid \<and> tid \<noteq> []) \<longleftrightarrow> first_nonempty [a, b] = Some tid"
  by (cases a; cases b) (auto simp: js_or_def)

lemma resolveEntity_SomeD:
  assumes "resolveEntity svc tim e = Some v"
  shows "\<exists>vp pos trip.
           fe_vehicle e = Some vp \<and> vp_position vp = Some pos \<and> vp_trip vp = Some trip \<and>
           js_or (td_tripId trip) (td_trip_id trip) = Some (tripId v) \<and> tripId v \<noteq> [] \<and>
           mapEntry_route (mapEntry_of svc (tripId v))
             (info_route (tim (tripId v)) (js_or (td_routeId trip) (td_route_id trip))) = Some (line v) \<and>
           line v \<noteq> [] \<and>
           destination v =
             lastStop_headsign svc (tim (tripId v))
               (directions_headsign svc (Some (line v))
                  (info_direction (tim (tripId v)) (nullish (td_directionId trip) (td_direction_id trip)))
                  (mapEntry_headsign (mapEntry_of svc (tripId v)))) \<and>
           delay v = (case tim (tripId v) of None \<Rightarrow> None | Some i \<Rightarrow> info_delay i) \<and>
           speed v = js_mul (num_or_zero (pos_speed pos)) (double_lit (36 / 10)) \<and>
           bearing v = num_or_zero (pos_bearing pos)"
  using assms unfolding resolveEntity_def
  by (auto simp: Let_def split: option.splits if_splits)

lemma resolveEntity_None_iff:
  assumes "fe_vehicle e = Some vp" "vp_position vp = Some pos" "vp_trip vp = Some trip"
    and "js_or (td_tripId trip) (td_trip_id trip) = Some tid" "tid \<noteq> []"
  shows "resolveEntity svc tim e = None \<longleftrightarrow>
         \<not> truthy (mapEntry_route (mapEntry_of svc tid)
             (info_route (tim tid) (js_or (td_routeId trip) (td_route_id trip))))"
  using assms unfolding resolveEntity_def
  by (auto simp: Let_def split: option.splits if_splits)

lemma resolveEntity_no_tripId:
  "spec_position_tripId e = None \<Longrightarrow> resolveEntity svc tim e = None"
  unfolding resolveEntity_def spec_position_tripId_def spec_position_trip_def spec_trip_tripId_def
  by (auto simp: js_or_def split: option.splits if_splits)

lemma allVehicles_of_set:
  "v \<in> set (allVehicles_of svc tim es) \<longleftrightarrow> (\<exists>e \<in> set es. resolveEntity svc tim e = Some v)"
  unfolding allVehicles_of_def
  by (induction es) (auto split: option.splits)

lemma filterByRoute_subset: "set (filterByRoute vs route) \<subseteq> set vs"
  by (auto simp: filterByRoute_def Let_def)

lemma getLiveVehicles_try_emitted:
  assumes "getLiveVehicles_try decode svc posFetch updatesFetch route = Inr vs" "v \<in> set vs"
  shows "\<exists>tim e. resolveEntity svc tim e = Some v"
  using assms filterByRoute_subset unfolding getLiveVehicles_try_def
  by (fastforce simp: Let_def allVehicles_of_set split: option.splits if_splits sum.splits)

lemma getLiveVehicles_emitted:
  assumes "getLiveVehicles initialize decode svc posFetch updatesFetch route = Inr vs" "v \<in> set vs"
  shows "\<exists>svc' tim e. resolveEntity svc' tim e = Some v"
  using assms getLiveVehicles_try_emitted unfolding getLiveVehicles_def
  by (fastforce split: sum.splits if_splits)

lemma find_append_last:
  "find P (xs @ [x]) = (case find P xs of None \<Rightarrow> (if P x then Some x else None) | Some y \<Rightarrow> Some y)"
  by (induction xs) auto

lemma indexUpdate_apply:
  "indexUpdate u m =
     (case spec_update_tripId u of
        None \<Rightarrow> m
      | Some t \<Rightarrow> (case spec_update_info u of None \<Rightarrow> m | Some i \<Rightarrow> m(t \<mapsto> i)))"
  unfolding indexUpdate_def spec_update_tripId_def spec_update_trip_def spec_update_info_def
    spec_trip_tripId_def
  by (auto simp: js_or_def split: option.splits)

lemma spec_update_info_defined:
  "spec_update_tripId u = Some t \<Longrightarrow> \<exists>i. spec_update_info u = Some i"
  unfolding spec_update_tripId_def spec_update_trip_def spec_update_info_def
  by (auto split: option.splits)

lemma fold_indexUpdate:
  "fold indexUpdate us m tid =
     (case find (\<lambda>u. spec_update_tripId u = Some tid) (rev us) of
        None \<Rightarrow> m tid
      | Some u \<Rightarrow> spec_update_info u)"
proof (induction us arbitrary: m)
  case Nil
  then show ?case by simp
next
  case (Cons u us)
  let ?P = "\<lambda>u. spec_update_tripId u = Some tid"
  have step: "fold indexUpdate (u # us) m tid =
      (case find ?P (rev us) of None \<Rightarrow> indexUpdate u m tid | Some w \<Rightarrow> spec_update_info w)"
    using Cons.IH [of "indexUpdate u m"] by simp
  have here: "indexUpdate u m tid = (if ?P u then spec_update_info u else m tid)"
  proof (cases "?P u")
    case True
    then obtain i where "spec_update_info u = Some i"
      using spec_update_info_defined by blast
    with True show ?thesis by (simp add: indexUpdate_apply)
  next
    case False
    then show ?thesis by (auto simp: indexUpdate_apply split: option.splits)
  qed
  show ?case
    unfolding step here by (simp add: find_append_last split: option.splits)
qed

lemma buildTripInfoMap_joined:
  "buildTripInfoMap us tid =
     (case spec_joined_update us tid of None \<Rightarrow> None | Some u \<Rightarrow> spec_update_info u)"
  by (simp add: buildTripInfoMap_def spec_joined_update_def fold_indexUpdate)

lemma spec_joined_update_tripId:
  "spec_joined_update us tid = Some u \<Longrightarrow> spec_update_tripId u = Some tid \<and> u \<in> set us"
  unfolding spec_joined_update_def
  by (metis (mono_tags, lifting) find_Some_iff nth_mem set_rev)

lemma spec_joined_update_trip:
  "spec_joined_update us tid = Some u \<Longrightarrow> \<exists>tu trip. tripUpdate u = Some tu \<and> tu_trip tu = Some trip"
  using spec_joined_update_tripId [of us tid u]
  by (auto simp: spec_update_tripId_def spec_update_trip_def split: option.splits)

lemma tripUpdateInfo_routeId [simp]:
  "info_routeId (tripUpdateInfo trip stus) = js_or (td_routeId trip) (td_route_id trip)"
  by (simp add: tripUpdateInfo_def Let_def split: option.splits list.splits)

lemma tripUpdateInfo_directionId [simp]:
  "info_directionId (tripUpdateInfo trip stus) = nullish (td_directionId trip) (td_direction_id trip)"
  by (simp add: tripUpdateInfo_def Let_def split: option.splits list.splits)

lemma tripUpdateInfo_delay [simp]:
  "info_delay (tripUpdateInfo trip stus) =
     (case stus of Some (u # us) \<Rightarrow> firstUpdate_delay u | _ \<Rightarrow> None)"
  by (simp add: tripUpdateInfo_def Let_def split: option.splits list.splits)

lemma tripUpdateInfo_lastStopId [simp]:
  "info_lastStopId (tripUpdateInfo trip stus) =
     (case stus of
        Some (u # us) \<Rightarrow> js_or (stu_stopId (last (u # us))) (stu_stop_id (last (u # us)))
      | _ \<Rightarrow> None)"
  by (simp add: tripUpdateInfo_def Let_def split: option.splits list.splits)

lemma nullish_spec: "nullish (td_directionId trip) (td_direction_id trip) = spec_trip_directionId trip"
  by (simp add: nullish_def spec_trip_directionId_def split: option.splits)

lemma firstUpdate_delay_spec: "firstUpdate_delay u = spec_stop_delay u"
  by (simp add: firstUpdate_delay_def spec_stop_delay_def spec_event_delay_def split: option.splits)

lemma route_chain:
  "(let x = mapEntry_route (mapEntry_of svc tid)
              (info_route (buildTripInfoMap us tid) (js_or (td_routeId trip) (td_route_id trip)))
    in if truthy x then x else None) = spec_routeId svc us trip tid"
  unfolding spec_routeId_def spec_joined_routeId_def spec_tripmap_routeId_def mapEntry_route_def
    mapEntry_of_def info_route_def buildTripInfoMap_joined spec_update_info_def
    spec_update_trip_def spec_trip_routeId_def Let_def
  by (auto simp: js_or_def split: option.splits)

lemma direction_chain:
  "info_direction (buildTripInfoMap us tid) (nullish (td_directionId trip) (td_direction_id trip)) =
     spec_directionId us trip tid"
  unfolding info_direction_def buildTripInfoMap_joined spec_directionId_def spec_update_info_def
    spec_update_trip_def nullish_spec
  by (auto simp: nullish_spec split: option.splits)

lemma Okand_nonempty [simp]: "Okand \<noteq> []"
  by (simp add: Okand_def)

lemma first_headsign_nonempty [simp]: "first_headsign cs \<noteq> []"
  by (induction cs) (auto split: option.splits)

lemma first_headsign_snoc:
  "first_headsign (cs @ [c]) =
     (if first_headsign cs = Okand then first_headsign [c] else first_headsign cs)"
  by (induction cs) (auto split: option.splits)

lemma tripmap_headsign_chain:
  "mapEntry_headsign (mapEntry_of svc tid) = first_headsign [spec_tripmap_headsign svc tid]"
  unfolding mapEntry_headsign_def mapEntry_of_def spec_tripmap_headsign_def
  by (auto split: option.splits)

lemma directions_headsign_chain:
  assumes "rid \<noteq> []"
  shows "directions_headsign svc (Some rid) d (first_headsign cs) =
         first_headsign (cs @ [spec_direction_headsign svc rid d])"
  unfolding directions_headsign_def spec_direction_headsign_def first_headsign_snoc
  using assms by (auto split: option.splits)

lemma lastStop_headsign_chain:
  "lastStop_headsign svc (buildTripInfoMap us tid) (first_headsign cs) =
     first_headsign (cs @ [spec_lastStop_name svc us tid])"
  unfolding lastStop_headsign_def spec_lastStop_name_def first_headsign_snoc
    buildTripInfoMap_joined spec_update_info_def spec_update_stops_def
  by (auto simp: js_or_def dest!: spec_joined_update_trip split: option.splits list.splits)

lemma delay_chain:
  "(case buildTripInfoMap us tid of None \<Rightarrow> None | Some i \<Rightarrow> info_delay i) =
     (case spec_joined_update us tid of
        None \<Rightarrow> None
      | Some u \<Rightarrow> (if spec_update_stops u = [] then None else spec_stop_delay (hd (spec_update_stops u))))"
  unfolding buildTripInfoMap_joined spec_update_info_def spec_update_stops_def
  by (auto simp: firstUpdate_delay_spec dest!: spec_joined_update_trip split: option.splits list.splits)

lemma ex_resolve: "resolveEntity ex_service (buildTripInfoMap [ex_update]) ex_entity = Some ex_vehicle"
  by code_simp

lemma ex_resolve_anonymous: "resolveEntity ex_service (buildTripInfoMap [ex_update]) ex_anonymous = None"
  by code_simp

lemma ex_allVehicles:
  "allVehicles_of ex_service (buildTripInfoMap [ex_update]) [ex_anonymous, ex_entity] = [ex_vehicle]"
  by (simp add: allVehicles_of_def ex_resolve ex_resolve_anonymous)

lemma ex_getLiveVehicles:
  "getLiveVehicles ex_initialize ex_feed_decode ex_service
     (Some \<lparr>resp_ok = True, resp_body = ex_pos_bytes\<rparr>)
     (Some \<lparr>resp_ok = True, resp_body = ex_upd_bytes\<rparr>) None = Inr [ex_vehicle]"
proof -
  have init: "isInitialized ex_service"
    by (simp add: ex_service_def)
  have pos: "decodeEntities ex_feed_decode ex_pos_bytes = Inr [ex_anonymous, ex_entity]"
    by (simp add: decodeEntities_def ex_feed_decode_def)
  have upd: "decodeEntities ex_feed_decode ex_upd_bytes = Inr [ex_update]"
    by (simp add: decodeEntities_def ex_feed_decode_def ex_pos_bytes_def ex_upd_bytes_def)
  have len: "length ex_pos_bytes = 20"
    by (simp add: ex_pos_bytes_def)
  show ?thesis
    by (simp add: getLiveVehicles_def getLiveVehicles_try_def fetchTripInfoMap_def init pos upd len
        ex_allVehicles)
qed

lemma double_lit_36: "double_lit (36 / 10) = Fin (8106479329266893 / 2251799813685248)"
  by code_simp

lemma double_lit_288: "double_lit (288 / 10) = Fin (8106479329266893 / 281474976710656)"
  by code_simp

lemma js_mul_8_36: "js_mul (Fin 8) (double_lit (36 / 10)) = double_lit (288 / 10)"
  by code_simp

lemma js_mul_zero: "js_mul (Fin 0) (double_lit (36 / 10)) = Fin 0"
  unfolding double_lit_36 by (simp add: round_double_def)

lemma js_mul_num_or_zero:
  "s \<noteq> NaN \<Longrightarrow> js_mul (num_or_zero (Some s)) (double_lit (36 / 10)) = js_mul s (double_lit (36 / 10))"
  unfolding double_lit_36 by (cases s) (simp_all add: num_or_zero_def)
















lemma lower_char_idem: "lower_char (lower_char c) = lower_char c"
  by (auto simp: lower_char_def Let_def)

lemma toLowerCase_idem: "toLowerCase (toLowerCase s) = toLowerCase s"
  by (simp add: toLowerCase_def lower_char_idem)

lemma startsWith_nocase:
  assumes "startsWith (toLowerCase s) q"
  shows "spec_prefix_nocase q s"
proof -
  from assms have q: "q = take (length q) (toLowerCase s)"
    by (simp add: startsWith_def)
  then have "toLowerCase q = take (length q) (toLowerCase (toLowerCase s))"
    by (metis toLowerCase_def take_map)
  then have "toLowerCase q = take (length q) (toLowerCase s)"
    by (simp add: toLowerCase_idem)
  then show ?thesis
    unfolding spec_prefix_nocase_def by (metis take_is_prefix)
qed

lemma cursor_lines_take:
  "length results < 10 \<Longrightarrow>
   cursor_lines query routes results =
     take 10 (results @ map line_result (filter (line_matches query) routes))"
proof (induction routes arbitrary: results)
  case Nil
  then show ?case by simp
next
  case (Cons route routes)
  show ?case
  proof (cases "line_matches query route")
    case True
    show ?thesis
    proof (cases "length results < 9")
      case less: True
      with \<open>line_matches query route\<close> show ?thesis
        using Cons.IH [of "results @ [line_result route]"]
        by (simp add: Let_def line_matches_def)
    next
      case False
      with Cons.prems have "length results = 9"
        by simp
      with \<open>line_matches query route\<close> show ?thesis
        by (simp add: Let_def line_matches_def)
    qed
  next
    case False
    then show ?thesis
      using Cons.prems Cons.IH [of results]
      by (auto simp: Let_def line_matches_def)
  qed
qed

lemma searchLines_take:
  "searchLines query routes =
     take 10 (map line_result (filter (line_matches query) (line_index routes)))"
  by (simp add: searchLines_def cursor_lines_take)

lemma startsWith_prefix: "startsWith s q \<longleftrightarrow> prefix q s"
proof
  assume "startsWith s q"
  then have "q = take (length q) s" by (simp add: startsWith_def)
  then show "prefix q s" by (metis take_is_prefix)
next
  assume "prefix q s"
  then show "startsWith s q" by (auto simp: startsWith_def prefix_def)
qed

lemma line_matches_lowered:
  "line_matches (toLowerCase query) route \<longleftrightarrow> spec_prefix_nocase query (lme_line route)"
  by (simp add: line_matches_def startsWith_prefix spec_prefix_nocase_def)

lemma searchLines_lowered:
  "searchLines (toLowerCase query) routes =
       take 10 (map line_result
         (filter (\<lambda>route. spec_prefix_nocase query (lme_line route)) (line_index routes)))"
  by (simp add: searchLines_take line_matches_lowered [abs_def])

lemma ex_searchLines:
  "searchLines ''4'' ex_manifest = [line_result (ex_manifest ! 2), line_result (ex_manifest ! 0)]"
  by code_simp

lemma getLiveVehicles_swallows:
  assumes "isInitialized svc"
  shows "\<exists>vs. getLiveVehicles initialize decode svc posFetch updatesFetch route = Inr vs"
    and "getLiveVehicles_try decode svc posFetch updatesFetch route = Inl e \<Longrightarrow>
         getLiveVehicles initialize decode svc posFetch updatesFetch route = Inr []"
  using assms by (auto simp: getLiveVehicles_def split: sum.splits)

lemma fetchLive_after_swallow:
  assumes "isInitialized svc"
  shows "liveStatus (fetchLive captured
           (getLiveVehicles initialize decode svc posFetch updatesFetch route) st)
         \<in> {StatusOk, liveStatus st}"
  using getLiveVehicles_swallows(1) [OF assms, of initialize decode posFetch updatesFetch route]
  by (auto simp: fetchLive_def)

lemma ex_destination_fallbacks:
  "map_option destination
     (resolveEntity
        (ex_service\<lparr>tripToRouteMap :=
           Some [''14010000123456789'' \<mapsto> \<lparr>r = ''9011001001200000'', h = []\<rparr>]\<rparr>)
        (buildTripInfoMap [ex_update]) ex_entity) = Some ''Kista''"
  "map_option destination
     (resolveEntity
        (ex_service\<lparr>tripToRouteMap :=
           Some [''14010000123456789'' \<mapsto> \<lparr>r = ''9011001001200000'', h = []\<rparr>],
           routeDirections := None\<rparr>)
        (buildTripInfoMap [ex_update]) ex_entity) = Some ''Solna''"
  "map_option destination
     (resolveEntity
        (ex_service\<lparr>tripToRouteMap :=
           Some [''14010000123456789'' \<mapsto> \<lparr>r = ''9011001001200000'', h = []\<rparr>],
           routeDirections := None, stopsMap := Map.empty\<rparr>)
        (buildTripInfoMap [ex_update]) ex_entity) = Some Okand"
  by code_simp+

section \<open>The claims\<close>

subsection \<open>The route id\<close>

text \<open>
  Claim C1.  A position entity with a trip id gets its route id from the first non-empty
  of three sources, in this order: the route id of its own trip descriptor, the route id
  of the trip-update entity joined by the trip id, the route id of the trip-map entry of
  the trip id.  When all three are empty the entity is dropped.  So every vehicle of the
  loop, and every vehicle \<^verbatim>\<open>getLiveVehicles\<close> returns, has a non-empty \<open>line\<close>.
\<close>

theorem routeId_resolution_order:
  "(spec_position_trip e = Some trip \<and> spec_trip_tripId trip = Some tid \<longrightarrow>
      (case spec_routeId svc us trip tid of
         None \<Rightarrow> resolveEntity svc (buildTripInfoMap us) e = None
       | Some rid \<Rightarrow>
           rid \<noteq> [] \<and>
           (\<exists>v. resolveEntity svc (buildTripInfoMap us) e = Some v \<and> line v = rid \<and> tripId v = tid)))
   \<and> (\<forall>v \<in> set (allVehicles_of svc tim positions). line v \<noteq> [])
   \<and> (\<forall>vs. getLiveVehicles initialize decode svc posFetch updatesFetch route = Inr vs \<longrightarrow>
         (\<forall>v \<in> set vs. line v \<noteq> []))"
proof (intro conjI impI allI ballI)
  assume a: "spec_position_trip e = Some trip \<and> spec_trip_tripId trip = Some tid"
  then obtain vp pos where e: "fe_vehicle e = Some vp" "vp_position vp = Some pos" "vp_trip vp = Some trip"
    by (auto simp: spec_position_trip_def split: option.splits)
  from a have tid: "js_or (td_tripId trip) (td_trip_id trip) = Some tid" "tid \<noteq> []"
    using js_or_Some_iff [of "td_tripId trip" "td_trip_id trip" tid]
    by (simp_all add: spec_trip_tripId_def)
  let ?x = "mapEntry_route (mapEntry_of svc tid)
              (info_route (buildTripInfoMap us tid) (js_or (td_routeId trip) (td_route_id trip)))"
  have chain: "(if truthy ?x then ?x else None) = spec_routeId svc us trip tid"
    using route_chain [of svc tid us trip] by (simp add: Let_def)
  show "case spec_routeId svc us trip tid of
         None \<Rightarrow> resolveEntity svc (buildTripInfoMap us) e = None
       | Some rid \<Rightarrow>
           rid \<noteq> [] \<and>
           (\<exists>v. resolveEntity svc (buildTripInfoMap us) e = Some v \<and> line v = rid \<and> tripId v = tid)"
  proof (cases "spec_routeId svc us trip tid")
    case None
    with chain have "\<not> truthy ?x" by (auto split: if_splits)
    then show ?thesis
      using resolveEntity_None_iff [OF e tid, of svc "buildTripInfoMap us"] None by simp
  next
    case (Some rid)
    with chain have x: "truthy ?x" "?x = Some rid" by (auto split: if_splits)
    then have "resolveEntity svc (buildTripInfoMap us) e \<noteq> None"
      using resolveEntity_None_iff [OF e tid, of svc "buildTripInfoMap us"] by simp
    then obtain v where v: "resolveEntity svc (buildTripInfoMap us) e = Some v" by auto
    from resolveEntity_SomeD [OF v] e tid x have "line v = rid" "tripId v = tid" "rid \<noteq> []"
      by auto
    with v Some show ?thesis by simp
  qed
next
  fix v assume "v \<in> set (allVehicles_of svc tim positions)"
  then show "line v \<noteq> []"
    using resolveEntity_SomeD by (fastforce simp: allVehicles_of_set)
next
  fix vs v
  assume "getLiveVehicles initialize decode svc posFetch updatesFetch route = Inr vs" "v \<in> set vs"
  then show "line v \<noteq> []"
    using getLiveVehicles_emitted resolveEntity_SomeD by fast
qed

theorem routeId_resolution_order_witness:
  "spec_position_trip ex_entity = Some ex_trip \<and>
   spec_trip_tripId ex_trip = Some ''14010000123456789'' \<and>
   spec_routeId ex_service [ex_update] ex_trip ''14010000123456789'' = Some ''9011001001200000'' \<and>
   (\<exists>v. resolveEntity ex_service (buildTripInfoMap [ex_update]) ex_entity = Some v \<and>
        line v = ''9011001001200000'' \<and> tripId v = ''14010000123456789'') \<and>
   ex_vehicle \<in> set (allVehicles_of ex_service (buildTripInfoMap [ex_update]) [ex_anonymous, ex_entity]) \<and>
   getLiveVehicles ex_initialize ex_feed_decode ex_service
     (Some \<lparr>resp_ok = True, resp_body = ex_pos_bytes\<rparr>)
     (Some \<lparr>resp_ok = True, resp_body = ex_upd_bytes\<rparr>) None = Inr [ex_vehicle] \<and>
   line ex_vehicle \<noteq> []"
proof -
  have h1: "spec_position_trip ex_entity = Some ex_trip"
    by code_simp
  have h2: "spec_trip_tripId ex_trip = Some ''14010000123456789''"
    by code_simp
  have h3: "spec_routeId ex_service [ex_update] ex_trip ''14010000123456789'' = Some ''9011001001200000''"
    by code_simp
  show ?thesis
    using routeId_resolution_order [of ex_entity ex_trip "''14010000123456789''" ex_service
        "[ex_update]" "buildTripInfoMap [ex_update]" "[ex_anonymous, ex_entity]" ex_initialize
        ex_feed_decode "Some \<lparr>resp_ok = True, resp_body = ex_pos_bytes\<rparr>"
        "Some \<lparr>resp_ok = True, resp_body = ex_upd_bytes\<rparr>" None]
    by (simp add: h1 h2 h3 ex_allVehicles ex_getLiveVehicles)
qed

subsection \<open>The destination\<close>

text \<open>
  Claim C2.  The destination of every emitted vehicle is the first value that is neither
  empty nor the placeholder among, in this order: the headsign of the trip-map entry of
  its trip id, the entry of the route-direction table under its resolved route id and
  direction, the name of the stop of the last stop-time update of the joined trip update;
  and the placeholder when none of them is.
\<close>

theorem destination_resolution_order:
  "resolveEntity svc (buildTripInfoMap us) e = Some v \<Longrightarrow>
   \<exists>trip. spec_position_trip e = Some trip \<and>
     destination v =
       spec_destination svc us (tripId v) (line v) (spec_directionId us trip (tripId v))"
proof -
  assume v: "resolveEntity svc (buildTripInfoMap us) e = Some v"
  from resolveEntity_SomeD [OF v] obtain vp pos trip where
    e: "fe_vehicle e = Some vp" "vp_position vp = Some pos" "vp_trip vp = Some trip" and
    rid: "line v \<noteq> []" and
    d: "destination v =
          lastStop_headsign svc (buildTripInfoMap us (tripId v))
            (directions_headsign svc (Some (line v))
               (info_direction (buildTripInfoMap us (tripId v))
                  (nullish (td_directionId trip) (td_direction_id trip)))
               (mapEntry_headsign (mapEntry_of svc (tripId v))))"
    by blast
  have "spec_position_trip e = Some trip"
    using e by (simp add: spec_position_trip_def)
  moreover have "destination v =
      spec_destination svc us (tripId v) (line v) (spec_directionId us trip (tripId v))"
    unfolding d direction_chain tripmap_headsign_chain directions_headsign_chain [OF rid]
      lastStop_headsign_chain spec_destination_def
    by simp
  ultimately show ?thesis by blast
qed

theorem destination_resolution_order_witness:
  "resolveEntity ex_service (buildTripInfoMap [ex_update]) ex_entity = Some ex_vehicle \<and>
   (\<exists>trip. spec_position_trip ex_entity = Some trip \<and>
      destination ex_vehicle =
        spec_destination ex_service [ex_update] (tripId ex_vehicle) (line ex_vehicle)
          (spec_directionId [ex_update] trip (tripId ex_vehicle)))"
  using destination_resolution_order [OF ex_resolve] ex_resolve by simp

subsection \<open>Entities without trip id\<close>

text \<open>
  Claim C3.  A position entity that lacks its vehicle record, its position, its trip
  descriptor or a non-empty trip id is dropped; no vehicle of the loop and no vehicle
  \<^verbatim>\<open>getLiveVehicles\<close> returns has an empty \<open>tripId\<close>.
\<close>

theorem missing_tripId_dropped:
  "(spec_position_tripId e = None \<longrightarrow> resolveEntity svc tim e = None)
   \<and> (\<forall>v \<in> set (allVehicles_of svc tim positions). tripId v \<noteq> [])
   \<and> (\<forall>vs. getLiveVehicles initialize decode svc posFetch updatesFetch route = Inr vs \<longrightarrow>
         (\<forall>v \<in> set vs. tripId v \<noteq> []))"
proof (intro conjI impI allI ballI)
  assume "spec_position_tripId e = None"
  then show "resolveEntity svc tim e = None"
    by (rule resolveEntity_no_tripId)
next
  fix v assume "v \<in> set (allVehicles_of svc tim positions)"
  then show "tripId v \<noteq> []"
    using resolveEntity_SomeD by (fastforce simp: allVehicles_of_set)
next
  fix vs v
  assume "getLiveVehicles initialize decode svc posFetch updatesFetch route = Inr vs" "v \<in> set vs"
  then show "tripId v \<noteq> []"
    using getLiveVehicles_emitted resolveEntity_SomeD by fast
qed

theorem missing_tripId_dropped_witness:
  "spec_position_tripId ex_anonymous = None \<and>
   resolveEntity ex_service (buildTripInfoMap [ex_update]) ex_anonymous = None \<and>
   allVehicles_of ex_service (buildTripInfoMap [ex_update]) [ex_anonymous, ex_entity] = [ex_vehicle] \<and>
   getLiveVehicles ex_initialize ex_feed_decode ex_service
     (Some \<lparr>resp_ok = True, resp_body = ex_pos_bytes\<rparr>)
     (Some \<lparr>resp_ok = True, resp_body = ex_upd_bytes\<rparr>) None = Inr [ex_vehicle] \<and>
   tripId ex_vehicle \<noteq> []"
proof -
  have h: "spec_position_tripId ex_anonymous = None"
    by code_simp
  show ?thesis
    using missing_tripId_dropped [of ex_anonymous ex_service "buildTripInfoMap [ex_update]"
        "[ex_anonymous, ex_entity]" ex_initialize ex_feed_decode
        "Some \<lparr>resp_ok = True, resp_body = ex_pos_bytes\<rparr>"
        "Some \<lparr>resp_ok = True, resp_body = ex_upd_bytes\<rparr>" None]
    by (simp add: h ex_allVehicles ex_getLiveVehicles)
qed

subsection \<open>The delay\<close>

text \<open>
  Claim C4.  For an emitted vehicle whose trip id joins a trip-update entity with at
  least one stop-time update, \<open>delay\<close> is the delay of the first stop-time update of that
  entity: the arrival's delay when there is one, otherwise the departure's.  For a vehicle
  whose trip id joins no trip update, \<open>delay\<close> is absent.
\<close>

theorem delay_from_first_stop_time_update:
  "resolveEntity svc (buildTripInfoMap us) e = Some v \<Longrightarrow>
     (spec_joined_update us (tripId v) = None \<longrightarrow> delay v = None) \<and>
     (\<forall>u. spec_joined_update us (tripId v) = Some u \<and> spec_update_stops u \<noteq> [] \<longrightarrow>
          delay v = spec_stop_delay (hd (spec_update_stops u)) \<and>
          (\<forall>d. spec_event_delay (arrival (hd (spec_update_stops u))) = Some d \<longrightarrow> delay v = Some d))"
proof -
  assume v: "resolveEntity svc (buildTripInfoMap us) e = Some v"
  from resolveEntity_SomeD [OF v] have
    d: "delay v = (case buildTripInfoMap us (tripId v) of None \<Rightarrow> None | Some i \<Rightarrow> info_delay i)"
    by blast
  show ?thesis
    unfolding d delay_chain by (auto simp: spec_stop_delay_def)
qed

theorem delay_from_first_stop_time_update_witness:
  "resolveEntity ex_service (buildTripInfoMap [ex_update]) ex_entity = Some ex_vehicle \<and>
   spec_joined_update [ex_update] (tripId ex_vehicle) = Some ex_update \<and>
   spec_update_stops ex_update = ex_stops \<and>
   spec_event_delay (arrival (hd ex_stops)) = Some 60 \<and>
   spec_event_delay (departure (hd ex_stops)) = Some 30 \<and>
   delay ex_vehicle = Some 60"
proof -
  have h1: "spec_joined_update [ex_update] (tripId ex_vehicle) = Some ex_update"
    by code_simp
  have h2: "spec_update_stops ex_update = ex_stops"
    by code_simp
  have h3: "spec_event_delay (arrival (hd ex_stops)) = Some 60"
    by code_simp
  have h4: "spec_event_delay (departure (hd ex_stops)) = Some 30"
    by code_simp
  have h5: "ex_stops \<noteq> []"
    by (simp add: ex_stops_def)
  from delay_from_first_stop_time_update [OF ex_resolve] h1 h2 h3 h5
  have "delay ex_vehicle = Some 60"
    by auto
  with ex_resolve h1 h2 h3 h4 show ?thesis
    by blast
qed

subsection \<open>The filter on the route\<close>

text \<open>
  Claim C5.  Filtering by a route keeps exactly the vehicles whose trip id is among the
  trip ids of the route; when none is while there are vehicles, the result is the vehicles
  whose line is the id of the route.  In particular a vehicle whose trip id misses the
  trip ids of the route and whose line is the id of the route is returned by the fallback.
\<close>

theorem filterByRoute_primary_and_fallback:
  "(filter (\<lambda>v. tripId v \<in> set (trip_ids route)) vs \<noteq> [] \<or> vs = [] \<longrightarrow>
      filterByRoute vs route = filter (\<lambda>v. tripId v \<in> set (trip_ids route)) vs)
   \<and> (filter (\<lambda>v. tripId v \<in> set (trip_ids route)) vs = [] \<and> vs \<noteq> [] \<longrightarrow>
      filterByRoute vs route = filter (\<lambda>v. line v = route_id route) vs)
   \<and> ((\<forall>v \<in> set vs. tripId v \<notin> set (trip_ids route)) \<and> w \<in> set vs \<and> line w = route_id route \<longrightarrow>
      w \<in> set (filterByRoute vs route))"
  by (auto simp: filterByRoute_def Let_def filter_empty_conv)

theorem filterByRoute_primary_and_fallback_witness:
  "filter (\<lambda>v. tripId v \<in> set (trip_ids ex_route_fresh)) [ex_vehicle] = [ex_vehicle] \<and>
   filterByRoute [ex_vehicle] ex_route_fresh = [ex_vehicle] \<and>
   filter (\<lambda>v. tripId v \<in> set (trip_ids ex_route)) [ex_vehicle] = [] \<and>
   line ex_vehicle = route_id ex_route \<and>
   filterByRoute [ex_vehicle] ex_route = filter (\<lambda>v. line v = route_id ex_route) [ex_vehicle] \<and>
   ex_vehicle \<in> set (filterByRoute [ex_vehicle] ex_route)"
proof -
  have h1: "filter (\<lambda>v. tripId v \<in> set (trip_ids ex_route_fresh)) [ex_vehicle] = [ex_vehicle]"
    by (simp add: ex_route_fresh_def ex_vehicle_def)
  have h2: "filter (\<lambda>v. tripId v \<in> set (trip_ids ex_route)) [ex_vehicle] = []"
    by (simp add: ex_route_def ex_vehicle_def)
  have h3: "line ex_vehicle = route_id ex_route"
    by (simp add: ex_route_def ex_vehicle_def)
  have ne: "[ex_vehicle] \<noteq> []"
    by simp
  from filterByRoute_primary_and_fallback [of ex_route_fresh "[ex_vehicle]" ex_vehicle] h1
  have a: "filterByRoute [ex_vehicle] ex_route_fresh = [ex_vehicle]"
    by (simp only: ne) simp
  from filterByRoute_primary_and_fallback [of ex_route "[ex_vehicle]" ex_vehicle] h2 ne
  have b: "filterByRoute [ex_vehicle] ex_route = filter (\<lambda>v. line v = route_id ex_route) [ex_vehicle]"
    by blast
  have "\<forall>v \<in> set [ex_vehicle]. tripId v \<notin> set (trip_ids ex_route)"
    using h2 by (simp only: filter_empty_conv)
  with filterByRoute_primary_and_fallback [of ex_route "[ex_vehicle]" ex_vehicle] h3
  have c: "ex_vehicle \<in> set (filterByRoute [ex_vehicle] ex_route)"
    by simp
  from h1 h2 h3 a b c show ?thesis
    by blast
qed

subsection \<open>A failed poll tick\<close>

text \<open>
  Claim C6 says that a failed fetch or decode is signalled to the caller, the tick being
  a no-op that keeps the displayed vehicles and flips the status flag.  The code does not:
  when the fetch rejects, when the response is not \<^verbatim>\<open>ok\<close>, and when the decoder throws,
  \<^verbatim>\<open>getLiveVehicles\<close> returns the empty list, and the tick replaces the displayed vehicles
  by it and leaves the status at \<^verbatim>\<open>ok\<close>.
\<close>

theorem fetch_failure_swallowed:
  "getLiveVehicles ex_initialize ex_decode ex_service None None None = Inr []
   \<and> getLiveVehicles ex_initialize ex_decode ex_service
        (Some \<lparr>resp_ok = False, resp_body = []\<rparr>) None None = Inr []
   \<and> getLiveVehicles ex_initialize ex_decode ex_service
        (Some \<lparr>resp_ok = True, resp_body = ex_pos_bytes\<rparr>) None None = Inr []
   \<and> fetchLive StatusLoading
        (getLiveVehicles ex_initialize ex_decode ex_service
           (Some \<lparr>resp_ok = False, resp_body = []\<rparr>) None None)
        \<lparr>vehicles = [ex_vehicle], liveStatus = StatusOk\<rparr> =
      \<lparr>vehicles = [], liveStatus = StatusOk\<rparr>
   \<and> fetchLive StatusLoading
        (getLiveVehicles ex_initialize ex_decode ex_service
           (Some \<lparr>resp_ok = True, resp_body = ex_pos_bytes\<rparr>) None None)
        \<lparr>vehicles = [ex_vehicle], liveStatus = StatusOk\<rparr> =
      \<lparr>vehicles = [], liveStatus = StatusOk\<rparr>"
proof -
  have init: "isInitialized ex_service"
    by (simp add: ex_service_def)
  have len: "length ex_pos_bytes = 20"
    by (simp add: ex_pos_bytes_def)
  have dec: "decodeEntities ex_decode ex_pos_bytes = Inl (Error ''decode'')"
    by (simp add: decodeEntities_def ex_decode_def)
  have a: "getLiveVehicles ex_initialize ex_decode ex_service None None None = Inr []"
    by (simp add: getLiveVehicles_def getLiveVehicles_try_def init)
  have b: "getLiveVehicles ex_initialize ex_decode ex_service
        (Some \<lparr>resp_ok = False, resp_body = []\<rparr>) None None = Inr []"
    by (simp add: getLiveVehicles_def getLiveVehicles_try_def init)
  have c: "getLiveVehicles ex_initialize ex_decode ex_service
        (Some \<lparr>resp_ok = True, resp_body = ex_pos_bytes\<rparr>) None None = Inr []"
    by (simp add: getLiveVehicles_def getLiveVehicles_try_def init len dec)
  show ?thesis
    unfolding a b c by (simp add: fetchLive_def)
qed

subsection \<open>The speed\<close>

text \<open>
  Claim C7.  The speed of an emitted vehicle is the decoded speed in m/s times 3.6, in
  the arithmetic of the language: the binary64 product with the double the literal
  \<^verbatim>\<open>3.6\<close> denotes.  A speed the feed leaves out is emitted as 0 (and so is one that is
  not a number).  A decoded speed of 8.0 gives the double that \<^verbatim>\<open>28.8\<close> denotes.
\<close>

theorem speed_in_kmh:
  "resolveEntity svc tim e = Some v \<Longrightarrow>
   \<exists>vp pos. fe_vehicle e = Some vp \<and> vp_position vp = Some pos \<and>
     (pos_speed pos = None \<longrightarrow> speed v = Fin 0) \<and>
     (pos_speed pos = Some NaN \<longrightarrow> speed v = Fin 0) \<and>
     (\<forall>s. pos_speed pos = Some s \<and> s \<noteq> NaN \<longrightarrow> speed v = js_mul s (double_lit (36 / 10))) \<and>
     (pos_speed pos = Some (Fin 8) \<longrightarrow> speed v = double_lit (288 / 10))"
proof -
  assume v: "resolveEntity svc tim e = Some v"
  from resolveEntity_SomeD [OF v] obtain vp pos where
    e: "fe_vehicle e = Some vp" "vp_position vp = Some pos" and
    s: "speed v = js_mul (num_or_zero (pos_speed pos)) (double_lit (36 / 10))"
    by blast
  have none: "pos_speed pos = None \<longrightarrow> speed v = Fin 0"
    unfolding s using js_mul_zero by (auto simp: num_or_zero_def)
  have nan: "pos_speed pos = Some NaN \<longrightarrow> speed v = Fin 0"
    unfolding s using js_mul_zero by (auto simp: num_or_zero_def)
  have some: "\<forall>s. pos_speed pos = Some s \<and> s \<noteq> NaN \<longrightarrow> speed v = js_mul s (double_lit (36 / 10))"
    unfolding s using js_mul_num_or_zero by auto
  have eight: "pos_speed pos = Some (Fin 8) \<longrightarrow> speed v = double_lit (288 / 10)"
    using some js_mul_8_36 by auto
  show ?thesis
    by (intro exI [of _ vp] exI [of _ pos] conjI) (fact e none nan some eight)+
qed

theorem speed_in_kmh_witness:
  "resolveEntity ex_service (buildTripInfoMap [ex_update]) ex_entity = Some ex_vehicle \<and>
   (\<exists>vp. fe_vehicle ex_entity = Some vp \<and> vp_position vp = Some ex_position) \<and>
   pos_speed ex_position = Some (Fin 8) \<and>
   speed ex_vehicle = double_lit (288 / 10) \<and>
   speed ex_vehicle = js_mul (Fin 8) (double_lit (36 / 10))"
proof -
  have h1: "\<exists>vp. fe_vehicle ex_entity = Some vp \<and> vp_position vp = Some ex_position"
    by (simp add: ex_entity_def)
  have h2: "pos_speed ex_position = Some (Fin 8)"
    by (simp add: ex_position_def)
  from speed_in_kmh [OF ex_resolve] h1 h2
  have "speed ex_vehicle = double_lit (288 / 10) \<and> speed ex_vehicle = js_mul (Fin 8) (double_lit (36 / 10))"
    by auto
  with ex_resolve h1 h2 show ?thesis by blast
qed

subsection \<open>The history store\<close>




subsection \<open>The line search\<close>

text \<open>
  Claim C9.  \<^verbatim>\<open>searchLines\<close> returns at most 10 results, each made from a record of the
  store whose line has the query as a prefix when case is ignored: they are the first 10
  records, in the order of the index, whose lower-cased line starts with the query.  Called
  with the lower-cased query, as \<^verbatim>\<open>search\<close> calls it, it returns the first 10 records that
  match when case is ignored.  Against the lines 40, 14 and 4 the query 4 returns the
  lines 4 and 40, in this order, and not 14.
\<close>

theorem searchLines_prefix_capped:
  "length (searchLines query routes) \<le> 10
   \<and> (\<forall>res \<in> set (searchLines query routes).
         \<exists>route \<in> set routes. res = line_result route \<and> spec_prefix_nocase query (lme_line route))
   \<and> searchLines query routes =
       take 10 (map line_result (filter (line_matches query) (line_index routes)))
   \<and> searchLines (toLowerCase query) routes =
       take 10 (map line_result
         (filter (\<lambda>route. spec_prefix_nocase query (lme_line route)) (line_index routes)))
   \<and> map title (searchLines ''4'' ex_manifest) = [''Linje 4'', ''Linje 40'']"
proof (intro conjI ballI)
  show "length (searchLines query routes) \<le> 10"
    by (simp add: searchLines_take)
next
  fix res assume "res \<in> set (searchLines query routes)"
  then have "res \<in> set (map line_result (filter (line_matches query) (line_index routes)))"
    unfolding searchLines_take by (rule in_set_takeD)
  then obtain route where "route \<in> set routes" "line_matches query route" "res = line_result route"
    by (auto simp: line_index_def)
  then show "\<exists>route \<in> set routes. res = line_result route \<and> spec_prefix_nocase query (lme_line route)"
    using startsWith_nocase by (auto simp: line_matches_def)
next
  show "searchLines query routes =
       take 10 (map line_result (filter (line_matches query) (line_index routes)))"
    by (rule searchLines_take)
next
  show "searchLines (toLowerCase query) routes =
       take 10 (map line_result
         (filter (\<lambda>route. spec_prefix_nocase query (lme_line route)) (line_index routes)))"
    by (rule searchLines_lowered)
next
  show "map title (searchLines ''4'' ex_manifest) = [''Linje 4'', ''Linje 40'']"
    unfolding ex_searchLines by (simp add: ex_manifest_def line_result_def)
qed

theorem searchLines_prefix_capped_witness:
  "searchLines ''4'' ex_manifest = [line_result (ex_manifest ! 2), line_result (ex_manifest ! 0)] \<and>
   length (searchLines ''4'' ex_manifest) \<le> 10 \<and>
   (\<exists>route \<in> set ex_manifest. line_result (ex_manifest ! 2) = line_result route \<and>
       spec_prefix_nocase ''4'' (lme_line route))"
proof -
  have "line_result (ex_manifest ! 2) \<in> set (searchLines ''4'' ex_manifest)"
    unfolding ex_searchLines by simp
  with searchLines_prefix_capped [of "''4''" ex_manifest] ex_searchLines show ?thesis
    by blast
qed

subsection \<open>Errors of a history read\<close>

text \<open>
  Claim C10.  A history read never surfaces an error: when the store cannot be reached
  and when the trip id is unknown the endpoint answers 200 with an empty path, the two
  answers being the same, and the client method returns the empty list; whatever the
  fetch gives, the client method returns a list and throws nothing.
\<close>

theorem history_read_never_fails:
  "getVehicleHistory (Some (history_handler q None)) = Inr []
   \<and> (coll tid = None \<longrightarrow> getVehicleHistory (Some (history_handler (Single tid) (Some coll))) = Inr [])
   \<and> (tid \<noteq> [] \<longrightarrow> history_handler (Single tid) None = \<lparr>status = 200, json = Some (PathBody [])\<rparr>)
   \<and> (tid \<noteq> [] \<and> coll tid = None \<longrightarrow>
        history_handler (Single tid) (Some coll) = \<lparr>status = 200, json = Some (PathBody [])\<rparr>)
   \<and> (\<exists>path. getVehicleHistory fetched = Inr path)"
  by (auto simp: getVehicleHistory_def history_handler_def split: QueryParam.splits option.splits HistoryBody.splits)

theorem history_read_never_fails_witness:
  "ex_collection ''unknown'' = None \<and>
   getVehicleHistory (Some (history_handler (Single ''unknown'') None)) = Inr [] \<and>
   getVehicleHistory (Some (history_handler (Single ''unknown'') (Some ex_collection))) = Inr [] \<and>
   history_handler (Single ''unknown'') None = \<lparr>status = 200, json = Some (PathBody [])\<rparr> \<and>
   history_handler (Single ''unknown'') (Some ex_collection) = \<lparr>status = 200, json = Some (PathBody [])\<rparr>"
proof -
  have h1: "ex_collection ''unknown'' = None"
    by (simp add: ex_collection_def)
  have h2: "''unknown'' \<noteq> []"
    by simp
  show ?thesis
    using history_read_never_fails [of "Single ''unknown''" ex_collection "''unknown''" None] h1 h2
    by blast
qed

end
